theory Spec2Isabelle
  imports
    Complex_Main
    "HOL-Library.Multiset"
    "HOL-Library.Char_ord"
    "HOL-Library.List_Lexorder"
    "HOL-Library.Product_Lexorder"
begin

section \<open>Spike detection over a GDELT knowledge graph (graphml\_to\_spikes.py)\<close>

text \<open>
  The development embeds the three layers of \<^verbatim>\<open>graphml_to_spikes.py\<close>:
  the risk classifier (\<^verbatim>\<open>_classify_by_cameo\<close>, \<^verbatim>\<open>_classify_by_theme_labels\<close>,
  \<^verbatim>\<open>classify_event_risk\<close>), the extraction of the daily count table
  (\<^verbatim>\<open>graphml_to_daily_counts\<close>) and the detector (\<^verbatim>\<open>detect_spikes\<close>).

  Conventions of the embedding.
  \<^item> Strings are byte strings (\<open>char list\<close>) ordered by character code, which is Python's
    order on ASCII text. \<^verbatim>\<open>str.upper\<close>, \<^verbatim>\<open>str.isdigit\<close> and \<^verbatim>\<open>str.strip\<close> are modelled
    on ASCII; bytes above 127 are left alone, are no digits and no white space.
  \<^item> A calendar date is its day number, an \<open>int\<close>; \<^verbatim>\<open>timedelta(days=n)\<close> is subtraction.
    The range limits of \<^verbatim>\<open>datetime.date\<close> are not modelled.
  \<^item> The \<^verbatim>\<open>float64\<close> columns are modelled by exact rationals, extended by the values
    \<open>inf\<close>, \<open>-inf\<close> and \<open>NaN\<close> where the code divides (a pandas division by zero does
    not raise). Rounding is not modelled.
  \<^item> A missing value (\<open>NaN\<close> after a left join) is \<open>None\<close>.
\<close>

subsection \<open>Risk categories\<close>

definition RISK_MILITARY :: string where "RISK_MILITARY = ''MILITARY''"
definition RISK_CIVIL_UNREST :: string where "RISK_CIVIL_UNREST = ''CIVIL_UNREST''"
definition RISK_POLITICAL :: string where "RISK_POLITICAL = ''POLITICAL''"
definition RISK_ECONOMIC :: string where "RISK_ECONOMIC = ''ECONOMIC''"
definition RISK_NATURAL_DISASTER :: string where "RISK_NATURAL_DISASTER = ''NATURAL_DISASTER''"
definition RISK_OTHER :: string where "RISK_OTHER = ''OTHER''"

subsection \<open>String primitives used by the classifier\<close>

definition code_of :: "char \<Rightarrow> nat" where
  "code_of c = of_char c"

definition is_space :: "char \<Rightarrow> bool" where
  \<comment> \<open>the ASCII characters that \<^verbatim>\<open>str.strip()\<close> removes\<close>
  "is_space c = ((9 \<le> code_of c \<and> code_of c \<le> 13) \<or> (28 \<le> code_of c \<and> code_of c \<le> 32))"

definition is_digit :: "char \<Rightarrow> bool" where
  "is_digit c = (48 \<le> code_of c \<and> code_of c \<le> 57)"

definition digit_val :: "char \<Rightarrow> int" where
  "digit_val c = int (code_of c) - 48"

definition strip :: "string \<Rightarrow> string" where
  "strip s = rev (dropWhile is_space (rev (dropWhile is_space s)))"

definition isdigit :: "string \<Rightarrow> bool" where
  \<comment> \<open>\<^verbatim>\<open>str.isdigit()\<close>: non-empty and all digits\<close>
  "isdigit s = (s \<noteq> [] \<and> list_all is_digit s)"

definition int_of_digits :: "string \<Rightarrow> int" where
  \<comment> \<open>\<^verbatim>\<open>int(s)\<close> on a string of decimal digits\<close>
  "int_of_digits s = foldl (\<lambda>acc c. acc * 10 + digit_val c) 0 s"

definition upper_char :: "char \<Rightarrow> char" where
  "upper_char c = (if 97 \<le> code_of c \<and> code_of c \<le> 122 then char_of (code_of c - 32) else c)"

definition upper :: "string \<Rightarrow> string" where
  "upper s = map upper_char s"

fun starts_with :: "string \<Rightarrow> string \<Rightarrow> bool" where
  "starts_with [] t = True"
| "starts_with (a # s) [] = False"
| "starts_with (a # s) (b # t) = (a = b \<and> starts_with s t)"

fun contains :: "string \<Rightarrow> string \<Rightarrow> bool" where
  \<comment> \<open>\<^verbatim>\<open>s in t\<close>: \<open>s\<close> occurs in \<open>t\<close> as a contiguous substring\<close>
  "contains s [] = (s = [])"
| "contains s (b # t) = (starts_with s (b # t) \<or> contains s t)"

subsection \<open>Classification by CAMEO code\<close>

definition classify_by_cameo :: "string \<Rightarrow> string option" where
  "classify_by_cameo cameo =
     (if cameo = [] then None
      else
        let root_str = take 2 (strip cameo) in
        if \<not> isdigit root_str then None
        else
          let rt = int_of_digits root_str in
          if rt \<in> set [18, 19, 20, 15, 17] then Some RISK_MILITARY
          else if rt = 14 then Some RISK_CIVIL_UNREST
          else if rt \<in> set [10, 11, 12, 13, 16] then Some RISK_POLITICAL
          else if rt \<in> set [6, 7] then Some RISK_ECONOMIC
          else None)"

subsection \<open>Classification by theme labels\<close>

definition contains_any :: "string list \<Rightarrow> string list \<Rightarrow> bool" where
  \<comment> \<open>\<^verbatim>\<open>any(any(s in t for s in substrings) for t in up)\<close>\<close>
  "contains_any up substrings = list_ex (\<lambda>t. list_ex (\<lambda>s. contains s t) substrings) up"

definition kw_natural_disaster :: "string list" where
  "kw_natural_disaster =
     [''NATURAL_DISASTER'', ''EARTHQUAKE'', ''FLOOD'', ''TYPHOON'', ''HURRICANE'',
      ''TSUNAMI'', ''WILDFIRE'', ''LANDSLIDE'']"

definition kw_military :: "string list" where
  "kw_military =
     [''MILITARY'', ''ARMEDCONFLICT'', ''WAR'', ''INVASION'', ''MISSILE'', ''AIRSTRIKE'',
      ''BOMBARD'']"

definition kw_protest :: "string list" where
  "kw_protest = [''PROTEST'', ''DEMONSTRATION'', ''STRIKE'', ''RIOT'', ''MOBILIZATION'']"

definition kw_terror :: "string list" where
  "kw_terror = [''TERROR'', ''TERRORISM'', ''BOMBING'', ''INSURGENCY'']"

definition kw_political :: "string list" where
  "kw_political = [''ELECTION'', ''GOVERNMENT'', ''COUP'', ''REGIME'', ''PARLIAMENT'', ''SANCTION'']"

definition kw_economic :: "string list" where
  "kw_economic = [''ECONOMY'', ''TRADE'', ''SANCTION'', ''TARIFF'', ''EXPORT'', ''IMPORT'']"

definition classify_by_theme_labels :: "string list \<Rightarrow> string option" where
  "classify_by_theme_labels theme_labels =
     (if theme_labels = [] then None
      else
        let up = map upper theme_labels in
        if contains_any up kw_natural_disaster then Some RISK_NATURAL_DISASTER
        else if contains_any up kw_military then Some RISK_MILITARY
        else if contains_any up kw_protest then Some RISK_CIVIL_UNREST
        else if contains_any up kw_terror then Some RISK_MILITARY
        else if contains_any up kw_political then Some RISK_POLITICAL
        else if contains_any up kw_economic then Some RISK_ECONOMIC
        else None)"

subsection \<open>The classifier\<close>

definition classify_event_risk :: "string option \<Rightarrow> string list \<Rightarrow> string" where
  "classify_event_risk cameo theme_labels =
     (case (case cameo of
              None \<Rightarrow> None
            | Some c \<Rightarrow> if c = [] then None else classify_by_cameo c) of
        Some by_cameo \<Rightarrow> by_cameo
      | None \<Rightarrow>
          (case (if theme_labels = [] then None else classify_by_theme_labels theme_labels) of
             Some by_theme \<Rightarrow> by_theme
           | None \<Rightarrow> RISK_OTHER))"

text \<open>
  The precedence of the keyword buckets as an ordered table, first match wins: the reading
  of the cascade of \<^verbatim>\<open>if contains_any(...)\<close> statements that the theorems below compare
  with the code.
\<close>

definition theme_buckets :: "(string list \<times> string) list" where
  "theme_buckets =
     [(kw_natural_disaster, RISK_NATURAL_DISASTER),
      (kw_military, RISK_MILITARY),
      (kw_protest, RISK_CIVIL_UNREST),
      (kw_terror, RISK_MILITARY),
      (kw_political, RISK_POLITICAL),
      (kw_economic, RISK_ECONOMIC)]"

definition label_matches :: "string list \<Rightarrow> string list \<Rightarrow> bool" where
  \<comment> \<open>some label contains, ignoring ASCII case, some keyword of the bucket\<close>
  "label_matches kws labels = (\<exists>t \<in> set labels. \<exists>s \<in> set kws. contains s (upper t))"

definition first_bucket :: "(string list \<times> string) list \<Rightarrow> string list \<Rightarrow> string option" where
  "first_bucket table labels =
     map_option snd (find (\<lambda>(kws, r). label_matches kws labels) table)"




section \<open>The daily count table and the detector\<close>

subsection \<open>Tables\<close>

text \<open>
  A row of the table \<^verbatim>\<open>df_daily\<close> with its columns \<^verbatim>\<open>date\<close>, \<^verbatim>\<open>country_code\<close>,
  \<^verbatim>\<open>risk_type\<close> and \<^verbatim>\<open>count\<close>. The table is a list of rows; the detector accepts any
  table, also one with several rows for a key or with a count of zero.
\<close>

record daily_row =
  d_date :: int
  d_country_code :: string
  d_risk_type :: string
  d_count :: int

type_synonym pair = "string \<times> string"

definition pair_of :: "daily_row \<Rightarrow> pair" where
  "pair_of r = (d_country_code r, d_risk_type r)"

subsection \<open>Float values where the code divides\<close>

datatype fl = Fin rat | PInf | NInf | NaN

definition fl_div :: "rat \<Rightarrow> rat \<Rightarrow> fl" where
  \<comment> \<open>division of two finite floats; a zero divisor gives an infinity or \<open>NaN\<close>\<close>
  "fl_div a b =
     (if b \<noteq> 0 then Fin (a / b)
      else if 0 < a then PInf else if a < 0 then NInf else NaN)"

fun fl_times :: "fl \<Rightarrow> rat \<Rightarrow> fl" where
  "fl_times (Fin x) c = Fin (x * c)"
| "fl_times PInf c = (if 0 < c then PInf else if c < 0 then NInf else NaN)"
| "fl_times NInf c = (if 0 < c then NInf else if c < 0 then PInf else NaN)"
| "fl_times NaN c = NaN"

fun fl_abs :: "fl \<Rightarrow> fl" where
  "fl_abs (Fin x) = Fin \<bar>x\<bar>"
| "fl_abs PInf = PInf"
| "fl_abs NInf = PInf"
| "fl_abs NaN = NaN"

fun fl_ge :: "fl \<Rightarrow> fl \<Rightarrow> bool" where
  \<comment> \<open>\<open>a >= b\<close> on floats: false as soon as one side is \<open>NaN\<close>\<close>
  "fl_ge NaN b = False"
| "fl_ge a NaN = False"
| "fl_ge PInf b = True"
| "fl_ge a NInf = True"
| "fl_ge (Fin a) (Fin b) = (b \<le> a)"
| "fl_ge (Fin a) PInf = False"
| "fl_ge NInf b = False"

text \<open>A row of the result, with the columns of the returned frame.\<close>

record spike =
  as_of :: int
  country_code :: string
  risk_type :: string
  today :: int
  baseline :: rat
  delta_percent :: fl

subsection \<open>Grouping and joining\<close>

definition mean :: "int list \<Rightarrow> rat" where
  "mean xs = of_int (sum_list xs) / of_nat (length xs)"

definition group_keys :: "daily_row list \<Rightarrow> pair list" where
  \<comment> \<open>the keys of \<^verbatim>\<open>groupby(["country_code", "risk_type"])\<close>, which sorts them\<close>
  "group_keys rows = sort (remdups (map pair_of rows))"

definition group_values :: "daily_row list \<Rightarrow> pair \<Rightarrow> int list" where
  "group_values rows k = map d_count (filter (\<lambda>r. pair_of r = k) rows)"

definition groupby_sum :: "daily_row list \<Rightarrow> (pair \<times> int) list" where
  "groupby_sum rows = map (\<lambda>k. (k, sum_list (group_values rows k))) (group_keys rows)"

definition groupby_mean :: "daily_row list \<Rightarrow> (pair \<times> rat) list" where
  "groupby_mean rows = map (\<lambda>k. (k, mean (group_values rows k))) (group_keys rows)"

definition merge_left ::
  "(pair \<times> int) list \<Rightarrow> (pair \<times> rat) list \<Rightarrow> (pair \<times> int \<times> rat option) list" where
  \<comment> \<open>\<^verbatim>\<open>pd.merge(left, right, on=[...], how="left")\<close> with unique keys on the right\<close>
  "merge_left l r = map (\<lambda>(k, t). (k, t, map_of r k)) l"

subsection \<open>The steps of \<^verbatim>\<open>detect_spikes\<close>\<close>

definition df_today :: "daily_row list \<Rightarrow> int \<Rightarrow> daily_row list" where
  "df_today df as_of_date = filter (\<lambda>r. d_date r = as_of_date) df"

definition df_base :: "daily_row list \<Rightarrow> int \<Rightarrow> int \<Rightarrow> daily_row list" where
  "df_base df as_of_date baseline_days =
     (let base_start = as_of_date - baseline_days; base_end = as_of_date - 1
      in filter (\<lambda>r. base_start \<le> d_date r \<and> d_date r \<le> base_end) df)"

definition df_all_before :: "daily_row list \<Rightarrow> int \<Rightarrow> daily_row list" where
  "df_all_before df as_of_date = filter (\<lambda>r. d_date r < as_of_date) df"

definition merged_primary :: "daily_row list \<Rightarrow> int \<Rightarrow> int \<Rightarrow> (pair \<times> int \<times> rat option) list" where
  "merged_primary df as_of_date baseline_days =
     merge_left (groupby_sum (df_today df as_of_date))
       (groupby_mean (df_base df as_of_date baseline_days))"

definition need_fallback :: "(pair \<times> int \<times> rat option) list \<Rightarrow> bool" where
  "need_fallback merged = list_ex (\<lambda>(k, t, b). b = None) merged"

definition fill_fallback ::
  "(pair \<times> int \<times> rat option) list \<Rightarrow> (pair \<times> rat) list \<Rightarrow> (pair \<times> int \<times> rat option) list" where
  \<comment> \<open>left join with \<^verbatim>\<open>fb\<close>, \<^verbatim>\<open>fillna\<close> of the baseline, drop of the helper column\<close>
  "fill_fallback merged fb =
     map (\<lambda>(k, t, b). (k, t, case b of None \<Rightarrow> map_of fb k | Some x \<Rightarrow> Some x)) merged"

definition merged_baseline :: "daily_row list \<Rightarrow> int \<Rightarrow> int \<Rightarrow> (pair \<times> int \<times> rat option) list" where
  "merged_baseline df as_of_date baseline_days =
     (let merged = merged_primary df as_of_date baseline_days in
      if need_fallback merged
      then fill_fallback merged (groupby_mean (df_all_before df as_of_date))
      else merged)"

definition dropna :: "(pair \<times> int \<times> rat option) list \<Rightarrow> (pair \<times> int \<times> rat) list" where
  "dropna merged = List.map_filter (\<lambda>(k, t, b). map_option (\<lambda>x. (k, t, x)) b) merged"

definition filter_baseline :: "rat \<Rightarrow> (pair \<times> int \<times> rat) list \<Rightarrow> (pair \<times> int \<times> rat) list" where
  "filter_baseline min_baseline_mean merged = filter (\<lambda>(k, t, b). min_baseline_mean \<le> b) merged"

definition delta_of :: "int \<Rightarrow> rat \<Rightarrow> fl" where
  \<comment> \<open>\<^verbatim>\<open>(today - baseline) / baseline * 100.0\<close>\<close>
  "delta_of t b = fl_times (fl_div (of_int t - b) b) 100"

definition with_delta :: "int \<Rightarrow> (pair \<times> int \<times> rat) list \<Rightarrow> spike list" where
  \<comment> \<open>adds the column \<^verbatim>\<open>delta_percent\<close>; the constant column \<^verbatim>\<open>as_of\<close>, which the code
      inserts after sorting, is set here\<close>
  "with_delta as_of_date merged =
     map (\<lambda>(k, t, b).
            \<lparr>as_of = as_of_date, country_code = fst k, risk_type = snd k, today = t,
             baseline = b, delta_percent = delta_of t b\<rparr>) merged"

definition filter_delta :: "rat \<Rightarrow> spike list \<Rightarrow> spike list" where
  "filter_delta min_delta_rel rows =
     filter (\<lambda>s. fl_ge (fl_abs (delta_percent s)) (Fin (min_delta_rel * 100))) rows"

definition joined_rows :: "daily_row list \<Rightarrow> int \<Rightarrow> int \<Rightarrow> rat \<Rightarrow> spike list" where
  \<comment> \<open>the joined table after the minimum-baseline filter, with its \<^verbatim>\<open>delta_percent\<close>\<close>
  "joined_rows df as_of_date baseline_days min_baseline_mean =
     with_delta as_of_date
       (filter_baseline min_baseline_mean (dropna (merged_baseline df as_of_date baseline_days)))"

definition spike_candidates :: "daily_row list \<Rightarrow> int \<Rightarrow> int \<Rightarrow> rat \<Rightarrow> rat \<Rightarrow> spike list" where
  "spike_candidates df as_of_date baseline_days min_baseline_mean min_delta_rel =
     filter_delta min_delta_rel (joined_rows df as_of_date baseline_days min_baseline_mean)"

definition descending :: "spike list \<Rightarrow> bool" where
  "descending rows = sorted_wrt (\<lambda>a b. fl_ge (delta_percent a) (delta_percent b)) rows"

text \<open>
  \<^verbatim>\<open>merged.sort_values("delta_percent", ascending=False)\<close> sorts on the one column with
  pandas' default \<^verbatim>\<open>kind="quicksort"\<close>, which the library documents as not stable: the
  result is some rearrangement of the rows that is descending in \<^verbatim>\<open>delta_percent\<close>, and
  the order among equal keys is not determined. The step is therefore a relation between
  the table and the sorted table.
\<close>

definition sort_values_desc :: "spike list \<Rightarrow> spike list \<Rightarrow> bool" where
  "sort_values_desc rows out = (mset out = mset rows \<and> descending out)"

definition detect_spikes ::
  "daily_row list \<Rightarrow> int \<Rightarrow> int \<Rightarrow> rat \<Rightarrow> rat \<Rightarrow> spike list \<Rightarrow> bool" where
  \<comment> \<open>\<open>detect_spikes df as_of baseline_days min_baseline_mean min_delta_rel out\<close>:
      the call may return \<open>out\<close>\<close>
  "detect_spikes df as_of_date baseline_days min_baseline_mean min_delta_rel out =
     (if df_today df as_of_date = [] then out = []
      else sort_values_desc
             (spike_candidates df as_of_date baseline_days min_baseline_mean min_delta_rel) out)"

definition tie_order :: "spike list \<Rightarrow> bool" where
  \<comment> \<open>of two records with equal \<^verbatim>\<open>delta_percent\<close>, the earlier one has the smaller
      \<open>(country_code, risk_type)\<close>\<close>
  "tie_order rows =
     sorted_wrt (\<lambda>a b. delta_percent a = delta_percent b \<longrightarrow>
                   (country_code a, risk_type a) \<le> (country_code b, risk_type b)) rows"

text \<open>
  What a stable sort (\<^verbatim>\<open>kind="stable"\<close>) would return: pandas reverses the rows, sorts
  them ascending and reverses the result, so that equal keys keep their order. It is one of
  the possible results of the step, used to show that the relation always admits a result.
\<close>

fun fl_rank :: "fl \<Rightarrow> nat \<times> rat" where
  "fl_rank NInf = (0, 0)"
| "fl_rank (Fin x) = (1, x)"
| "fl_rank PInf = (2, 0)"
| "fl_rank NaN = (3, 0)"

definition stable_descending :: "spike list \<Rightarrow> spike list" where
  "stable_descending rows = rev (sort_key (\<lambda>s. fl_rank (delta_percent s)) (rev rows))"

subsection \<open>The counts a baseline is taken over\<close>

text \<open>
  The counts of one pair on the target date, in the window
  \<open>[as_of - baseline_days, as_of - 1]\<close> and on all dates before the target date, read
  directly off the table. The theorems relate the joined table of the code to them.
\<close>

definition today_counts :: "daily_row list \<Rightarrow> int \<Rightarrow> pair \<Rightarrow> int list" where
  "today_counts df as_of_date k =
     map d_count (filter (\<lambda>r. pair_of r = k \<and> d_date r = as_of_date) df)"

definition window_counts :: "daily_row list \<Rightarrow> int \<Rightarrow> int \<Rightarrow> pair \<Rightarrow> int list" where
  "window_counts df as_of_date baseline_days k =
     map d_count
       (filter (\<lambda>r. pair_of r = k \<and> as_of_date - baseline_days \<le> d_date r \<and>
                    d_date r \<le> as_of_date - 1) df)"

definition before_counts :: "daily_row list \<Rightarrow> int \<Rightarrow> pair \<Rightarrow> int list" where
  "before_counts df as_of_date k =
     map d_count (filter (\<lambda>r. pair_of r = k \<and> d_date r < as_of_date) df)"

definition primary_baseline :: "daily_row list \<Rightarrow> int \<Rightarrow> int \<Rightarrow> pair \<Rightarrow> rat option" where
  \<comment> \<open>the entry of the pair in \<^verbatim>\<open>agg_base\<close>\<close>
  "primary_baseline df as_of_date baseline_days k =
     map_of (groupby_mean (df_base df as_of_date baseline_days)) k"

definition fallback_baseline :: "daily_row list \<Rightarrow> int \<Rightarrow> pair \<Rightarrow> rat option" where
  \<comment> \<open>the entry of the pair in \<^verbatim>\<open>fb\<close>\<close>
  "fallback_baseline df as_of_date k = map_of (groupby_mean (df_all_before df as_of_date)) k"

definition final_baseline :: "daily_row list \<Rightarrow> int \<Rightarrow> int \<Rightarrow> pair \<Rightarrow> rat option" where
  \<comment> \<open>the primary baseline where there is one, the fallback baseline otherwise\<close>
  "final_baseline df as_of_date baseline_days k =
     (case primary_baseline df as_of_date baseline_days k of
        None \<Rightarrow> fallback_baseline df as_of_date k
      | Some x \<Rightarrow> Some x)"

definition spike_of :: "daily_row list \<Rightarrow> int \<Rightarrow> pair \<Rightarrow> rat \<Rightarrow> spike" where
  \<comment> \<open>the record of a pair, given its baseline\<close>
  "spike_of df as_of_date k b =
     \<lparr>as_of = as_of_date, country_code = fst k, risk_type = snd k,
      today = sum_list (today_counts df as_of_date k), baseline = b,
      delta_percent = delta_of (sum_list (today_counts df as_of_date k)) b\<rparr>"

section \<open>Extraction of the daily count table\<close>

text \<open>
  The loaded graph: its nodes with their attributes, in the order of
  \<^verbatim>\<open>G.nodes(data=True)\<close>, and for every node identifier the attributes of its neighbours
  (\<^verbatim>\<open>G.nodes[nbr]\<close> for \<^verbatim>\<open>nbr\<close> in \<^verbatim>\<open>G.neighbors(node_id)\<close>). Attribute values are
  strings; an absent attribute is \<open>None\<close>. Reading the file (\<^verbatim>\<open>nx.read_graphml\<close>) is
  outside the model, and \<^verbatim>\<open>datetime.strptime(s, "%Y%m%d").date()\<close> is a parameter
  \<open>strptime\<close> that yields the day number, or \<open>None\<close> where the library raises.
\<close>

record node_data =
  n_type :: "string option"
  n_label :: "string option"
  n_date :: "string option"
  n_country :: "string option"
  n_cameo :: "string option"

record graph =
  g_nodes :: "(string \<times> node_data) list"
  g_neighbors :: "string \<Rightarrow> node_data list"

definition EVENT_NODE_TYPE :: string where "EVENT_NODE_TYPE = ''Event''"
definition LOCATION_NODE_TYPE :: string where "LOCATION_NODE_TYPE = ''Location''"
definition THEME_NODE_TYPE :: string where "THEME_NODE_TYPE = ''Theme''"

datatype error = RuntimeError

definition neighbor_countries :: "node_data list \<Rightarrow> string list" where
  \<comment> \<open>the set \<^verbatim>\<open>countries\<close>, as a list without repetitions\<close>
  "neighbor_countries nbrs =
     remdups
       (List.map_filter
          (\<lambda>nbr_data.
             if n_type nbr_data = Some LOCATION_NODE_TYPE then
               (case n_country nbr_data of
                  None \<Rightarrow> None
                | Some cc \<Rightarrow> if cc = [] then None else Some cc)
             else None) nbrs)"

definition neighbor_themes :: "node_data list \<Rightarrow> string list" where
  "neighbor_themes nbrs =
     List.map_filter
       (\<lambda>nbr_data.
          if n_type nbr_data = Some THEME_NODE_TYPE then
            (case n_label nbr_data of
               None \<Rightarrow> None
             | Some lab \<Rightarrow> if lab = [] then None else Some lab)
          else None) nbrs"

text \<open>What one iteration of the loop over the nodes holds when it reaches the inner loop.\<close>

record event =
  e_date :: int
  e_countries :: "string list"
  e_risk_type :: string

definition extract_event ::
  "(string \<Rightarrow> int option) \<Rightarrow> graph \<Rightarrow> string \<times> node_data \<Rightarrow> event option" where
  "extract_event strptime G node =
     (let node_id = fst node; data = snd node in
      if n_type data \<noteq> Some EVENT_NODE_TYPE then None
      else
        case n_date data of
          None \<Rightarrow> None
        | Some date_str \<Rightarrow>
            if date_str = [] then None
            else
              case strptime date_str of
                None \<Rightarrow> None
              | Some event_date \<Rightarrow>
                  let countries = neighbor_countries (g_neighbors G node_id);
                      theme_labels = neighbor_themes (g_neighbors G node_id)
                  in
                    if countries = [] then None
                    else
                      Some \<lparr>e_date = event_date, e_countries = countries,
                            e_risk_type = classify_event_risk (n_cameo data) theme_labels\<rparr>)"

definition valid_events :: "(string \<Rightarrow> int option) \<Rightarrow> graph \<Rightarrow> event list" where
  "valid_events strptime G = List.map_filter (extract_event strptime G) (g_nodes G)"

type_synonym event_row = "int \<times> string \<times> string"

definition event_rows :: "event \<Rightarrow> event_row list" where
  \<comment> \<open>the inner loop: one row per country of the event\<close>
  "event_rows e = map (\<lambda>cc. (e_date e, cc, e_risk_type e)) (e_countries e)"

definition extracted_rows :: "(string \<Rightarrow> int option) \<Rightarrow> graph \<Rightarrow> event_row list" where
  "extracted_rows strptime G = concat (map event_rows (valid_events strptime G))"

definition groupby_size :: "event_row list \<Rightarrow> daily_row list" where
  \<comment> \<open>\<^verbatim>\<open>groupby([...]).size().reset_index(name="count").sort_values([...])\<close>\<close>
  "groupby_size rows =
     map (\<lambda>k. \<lparr>d_date = fst k, d_country_code = fst (snd k), d_risk_type = snd (snd k),
                d_count = int (length (filter (\<lambda>r. r = k) rows))\<rparr>)
       (sort (remdups rows))"

definition graphml_to_daily_counts ::
  "(string \<Rightarrow> int option) \<Rightarrow> graph \<Rightarrow> error + daily_row list" where
  "graphml_to_daily_counts strptime G =
     (let rows = extracted_rows strptime G in
      if rows = [] then Inl RuntimeError else Inr (groupby_size rows))"

subsection \<open>The (event, country) pairs of the valid events\<close>

definition event_country_pairs :: "(string \<Rightarrow> int option) \<Rightarrow> graph \<Rightarrow> (event \<times> string) list" where
  "event_country_pairs strptime G =
     concat (map (\<lambda>e. map (\<lambda>cc. (e, cc)) (e_countries e)) (valid_events strptime G))"

definition row_of_pair :: "event \<times> string \<Rightarrow> event_row" where
  "row_of_pair p = (e_date (fst p), snd p, e_risk_type (fst p))"

section \<open>Example tables\<close>

definition daily :: "int \<Rightarrow> string \<Rightarrow> string \<Rightarrow> int \<Rightarrow> daily_row" where
  "daily d c r n = \<lparr>d_date = d, d_country_code = c, d_risk_type = r, d_count = n\<rparr>"

definition spike_row :: "string \<Rightarrow> string \<Rightarrow> int \<Rightarrow> rat \<Rightarrow> fl \<Rightarrow> spike" where
  \<comment> \<open>a result row for the target date 10\<close>
  "spike_row c r t b d =
     \<lparr>as_of = 10, country_code = c, risk_type = r, today = t, baseline = b, delta_percent = d\<rparr>"

definition ex_primary :: "daily_row list" where
  \<comment> \<open>one pair with a row inside the window of 7 days before day 10\<close>
  "ex_primary = [daily 9 ''A'' ''OTHER'' 1, daily 10 ''A'' ''OTHER'' 3]"

definition ex_fallback :: "daily_row list" where
  \<comment> \<open>the same pair with its only earlier row before the window\<close>
  "ex_fallback = [daily 2 ''A'' ''OTHER'' 1, daily 10 ''A'' ''OTHER'' 3]"



definition ex_mixed :: "daily_row list" where
  \<comment> \<open>a pair with a primary baseline, one with a fallback baseline, one with none\<close>
  "ex_mixed = [daily 8 ''US'' ''MILITARY'' 4, daily 9 ''US'' ''MILITARY'' 6,
               daily 10 ''US'' ''MILITARY'' 9,
               daily 1 ''JP'' ''OTHER'' 1, daily 10 ''JP'' ''OTHER'' 3,
               daily 10 ''FR'' ''OTHER'' 5]"

section \<open>Example graphs\<close>

definition event_node :: "string option \<Rightarrow> string option \<Rightarrow> node_data" where
  "event_node date_str cameo =
     \<lparr>n_type = Some ''Event'', n_label = None, n_date = date_str, n_country = None,
      n_cameo = cameo\<rparr>"

definition location_node :: "string \<Rightarrow> node_data" where
  "location_node cc =
     \<lparr>n_type = Some ''Location'', n_label = None, n_date = None, n_country = Some cc,
      n_cameo = None\<rparr>"

definition theme_node :: "string \<Rightarrow> node_data" where
  "theme_node lab =
     \<lparr>n_type = Some ''Theme'', n_label = Some lab, n_date = None, n_country = None,
      n_cameo = None\<rparr>"

definition ex_strptime :: "string \<Rightarrow> int option" where
  \<comment> \<open>a stand-in for the date parser in the examples: eight digits, read as a number\<close>
  "ex_strptime s = (if length s = 8 \<and> isdigit s then Some (int_of_digits s) else None)"

definition ex_graph :: graph where
  "ex_graph =
     \<lparr>g_nodes =
        [(''e1'', event_node (Some ''20251124'') (Some ''190'')),
         (''e2'', event_node (Some ''20251124'') None),
         (''e3'', event_node (Some ''bad'') None),
         (''e4'', event_node (Some ''20251124'') (Some ''190'')),
         (''e5'', event_node (Some ''20251123'') (Some ''190'')),
         (''l1'', location_node ''US''),
         (''l2'', location_node ''JP''),
         (''t1'', theme_node ''protest'')],
      g_neighbors =
        (\<lambda>n. if n = ''e1'' then [location_node ''US'', location_node ''JP'']
             else if n = ''e2'' then [location_node ''US'', theme_node ''protest'']
             else if n = ''e3'' then [location_node ''US'']
             else if n = ''e4'' then [theme_node ''protest'']
             else if n = ''e5'' then [location_node ''US'', location_node ''US'']
             else [])\<rparr>"

definition ex_daily :: "daily_row list" where
  \<comment> \<open>the table extracted from \<open>ex_graph\<close>\<close>
  "ex_daily =
     [daily 20251123 ''US'' ''MILITARY'' 1, daily 20251124 ''JP'' ''MILITARY'' 1,
      daily 20251124 ''US'' ''CIVIL_UNREST'' 1, daily 20251124 ''US'' ''MILITARY'' 1]"


section \<open>Properties of the classifier\<close>

lemma starts_with_iff: "starts_with s t \<longleftrightarrow> (\<exists>q. t = s @ q)"
  by (induction s t rule: starts_with.induct) auto

lemma contains_iff: "contains s t \<longleftrightarrow> (\<exists>p q. t = p @ s @ q)"
proof (induction t)
  case Nil
  show ?case by auto
next
  case (Cons b t)
  show ?case
  proof
    assume "contains s (b # t)"
    then consider "starts_with s (b # t)" | "contains s t" by auto
    then show "\<exists>p q. b # t = p @ s @ q"
    proof cases
      case 1
      then obtain q where "b # t = s @ q" unfolding starts_with_iff ..
      then have "b # t = [] @ s @ q" by simp
      then show ?thesis by blast
    next
      case 2
      with Cons.IH obtain p q where "t = p @ s @ q" by blast
      then have "b # t = (b # p) @ s @ q" by simp
      then show ?thesis by blast
    qed
  next
    assume "\<exists>p q. b # t = p @ s @ q"
    then obtain p q where pq: "b # t = p @ s @ q" by blast
    show "contains s (b # t)"
    proof (cases p)
      case Nil
      with pq have "starts_with s (b # t)" unfolding starts_with_iff by auto
      then show ?thesis by simp
    next
      case (Cons a p')
      with pq have "t = p' @ s @ q" by simp
      with Cons.IH have "contains s t" by blast
      then show ?thesis by simp
    qed
  qed
qed

lemma contains_any_iff: "contains_any (map upper labels) kws \<longleftrightarrow> label_matches kws labels"
  by (auto simp: contains_any_def label_matches_def list_ex_iff)

lemma classify_by_theme_labels_table:
  "classify_by_theme_labels labels = first_bucket theme_buckets labels"
proof (cases "labels = []")
  case True
  then show ?thesis
    by (simp add: classify_by_theme_labels_def first_bucket_def theme_buckets_def
        label_matches_def)
next
  case False
  then show ?thesis
    by (simp add: classify_by_theme_labels_def first_bucket_def theme_buckets_def
        contains_any_iff Let_def)
qed








text \<open>
  C3 (as stated, refuted). The claim puts the terror keywords in the military bucket, ahead
  of the protest keywords. In the code the terror keywords are a bucket of their own that is
  tested after the protest bucket: labels matching a terror keyword and a protest keyword
  (and no disaster or military keyword) are classified CIVIL\_UNREST, not MILITARY.
\<close>

theorem classify_terror_protest_counterexample:
  "label_matches kw_terror [''TERROR'', ''PROTEST''] \<and>
   label_matches kw_protest [''TERROR'', ''PROTEST''] \<and>
   classify_event_risk None [''TERROR'', ''PROTEST''] = RISK_CIVIL_UNREST \<and>
   classify_event_risk None [''TERROR'', ''PROTEST''] \<noteq> RISK_MILITARY"
  by code_simp

text \<open>
  C3 (amended). For an event whose action code yields no mapping, the category is that of the
  first bucket, in the order natural disaster, military and armed conflict, protest and
  unrest, terror, political, economic, one of whose keywords occurs in the upper-cased form
  of some theme label; OTHER when no bucket matches. The terror bucket maps to MILITARY but
  comes after the protest bucket, so labels matching a terror and a protest keyword, and no
  disaster or military keyword, are classified CIVIL\_UNREST.
\<close>

theorem classify_theme_precedence:
  assumes "\<forall>c. cameo = Some c \<longrightarrow> classify_by_cameo c = None"
  shows "classify_event_risk cameo labels =
           (case first_bucket theme_buckets labels of Some cat \<Rightarrow> cat | None \<Rightarrow> RISK_OTHER) \<and>
         (label_matches kw_terror labels \<and> label_matches kw_protest labels \<and>
          \<not> label_matches kw_natural_disaster labels \<and> \<not> label_matches kw_military labels
            \<longrightarrow> classify_event_risk cameo labels = RISK_CIVIL_UNREST)"
proof -
  have th: "classify_by_theme_labels [] = None"
    by (simp add: classify_by_theme_labels_def)
  have eq: "classify_event_risk cameo labels =
        (case classify_by_theme_labels labels of Some cat \<Rightarrow> cat | None \<Rightarrow> RISK_OTHER)"
    using assms th by (cases cameo) (simp_all add: classify_event_risk_def)
  have 1: "classify_event_risk cameo labels =
           (case first_bucket theme_buckets labels of Some cat \<Rightarrow> cat | None \<Rightarrow> RISK_OTHER)"
    using eq by (simp add: classify_by_theme_labels_table)
  have 2: "classify_event_risk cameo labels = RISK_CIVIL_UNREST"
    if "label_matches kw_terror labels \<and> label_matches kw_protest labels \<and>
        \<not> label_matches kw_natural_disaster labels \<and> \<not> label_matches kw_military labels"
    using that unfolding 1 by (simp add: first_bucket_def theme_buckets_def)
  from 1 2 show ?thesis by blast
qed

theorem classify_theme_precedence_witness:
  "classify_by_cameo ''031'' = None \<and>
   label_matches kw_terror [''Terror_Attack'', ''protest march''] \<and>
   label_matches kw_protest [''Terror_Attack'', ''protest march''] \<and>
   \<not> label_matches kw_natural_disaster [''Terror_Attack'', ''protest march''] \<and>
   \<not> label_matches kw_military [''Terror_Attack'', ''protest march''] \<and>
   first_bucket theme_buckets [''Terror_Attack'', ''protest march''] = Some RISK_CIVIL_UNREST \<and>
   classify_event_risk (Some ''031'') [''Terror_Attack'', ''protest march''] = RISK_CIVIL_UNREST"
proof -
  have c: "classify_by_cameo ''031'' = None" by code_simp
  then have h: "\<forall>c. Some ''031'' = Some c \<longrightarrow> classify_by_cameo c = None" by simp
  have m: "label_matches kw_terror [''Terror_Attack'', ''protest march''] \<and>
   label_matches kw_protest [''Terror_Attack'', ''protest march''] \<and>
   \<not> label_matches kw_natural_disaster [''Terror_Attack'', ''protest march''] \<and>
   \<not> label_matches kw_military [''Terror_Attack'', ''protest march'']"
    by code_simp
  have f: "first_bucket theme_buckets [''Terror_Attack'', ''protest march''] = Some RISK_CIVIL_UNREST"
    by code_simp
  show ?thesis
    using classify_theme_precedence [OF h, of "[''Terror_Attack'', ''protest march'']"] c m f
    by simp
qed

section \<open>Properties of the detector\<close>

lemma set_group_keys: "set (group_keys rows) = pair_of ` set rows"
  by (simp add: group_keys_def)

lemma distinct_group_keys: "distinct (group_keys rows)"
  by (simp add: group_keys_def)

lemma sorted_group_keys: "sorted (group_keys rows)"
  by (simp add: group_keys_def)

lemma map_of_groupby_mean:
  "map_of (groupby_mean rows) k =
     (if k \<in> pair_of ` set rows then Some (mean (group_values rows k)) else None)"
  by (simp add: groupby_mean_def map_of_map_restrict restrict_map_def set_group_keys)

lemma group_values_eq_Nil: "group_values rows k = [] \<longleftrightarrow> k \<notin> pair_of ` set rows"
  by (auto simp: group_values_def filter_empty_conv)

lemma group_values_today: "group_values (df_today df a) k = today_counts df a k"
  by (simp add: group_values_def df_today_def today_counts_def conj_commute)

lemma group_values_base: "group_values (df_base df a bd) k = window_counts df a bd k"
  by (simp add: group_values_def df_base_def window_counts_def conj_commute conj_left_commute)

lemma group_values_before: "group_values (df_all_before df a) k = before_counts df a k"
  by (simp add: group_values_def df_all_before_def before_counts_def conj_commute)

lemma primary_baseline_eq:
  "primary_baseline df a bd k =
     (if window_counts df a bd k = [] then None else Some (mean (window_counts df a bd k)))"
  unfolding primary_baseline_def map_of_groupby_mean
  using group_values_eq_Nil [of "df_base df a bd" k]
  by (simp add: group_values_base)

lemma fallback_baseline_eq:
  "fallback_baseline df a k =
     (if before_counts df a k = [] then None else Some (mean (before_counts df a k)))"
  unfolding fallback_baseline_def map_of_groupby_mean
  using group_values_eq_Nil [of "df_all_before df a" k]
  by (simp add: group_values_before)

lemma merged_primary_eq:
  "merged_primary df a bd =
     map (\<lambda>k. (k, sum_list (today_counts df a k), primary_baseline df a bd k))
       (group_keys (df_today df a))"
  by (simp add: merged_primary_def merge_left_def groupby_sum_def primary_baseline_def
      group_values_today)

lemma merged_baseline_eq:
  "merged_baseline df a bd =
     map (\<lambda>k. (k, sum_list (today_counts df a k), final_baseline df a bd k))
       (group_keys (df_today df a))"
proof (cases "need_fallback (merged_primary df a bd)")
  case True
  then show ?thesis
    by (simp add: merged_baseline_def fill_fallback_def merged_primary_eq final_baseline_def
        fallback_baseline_def split: option.splits)
next
  case False
  then have "\<forall>k \<in> set (group_keys (df_today df a)). primary_baseline df a bd k \<noteq> None"
    by (auto simp: need_fallback_def merged_primary_eq list_ex_iff)
  then have "\<forall>k \<in> set (group_keys (df_today df a)).
      final_baseline df a bd k = primary_baseline df a bd k"
    by (auto simp: final_baseline_def)
  with False show ?thesis
    by (simp add: merged_baseline_def merged_primary_eq)
qed


lemma dropna_eq:
  "dropna (map (\<lambda>k. (k, f k, g k)) ks) =
     map (\<lambda>k. (k, f k, the (g k))) (filter (\<lambda>k. g k \<noteq> None) ks)"
  by (induction ks) (auto simp: dropna_def List.map_filter_simps)

lemma joined_rows_eq:
  "joined_rows df a bd mbm =
     map (\<lambda>k. spike_of df a k (the (final_baseline df a bd k)))
       (filter (\<lambda>k. mbm \<le> the (final_baseline df a bd k))
         (filter (\<lambda>k. final_baseline df a bd k \<noteq> None) (group_keys (df_today df a))))"
  by (simp add: joined_rows_def merged_baseline_eq dropna_eq filter_baseline_def with_delta_def
      filter_map comp_def spike_of_def)

lemma in_joined_rows:
  "s \<in> set (joined_rows df a bd mbm) \<longleftrightarrow>
     (\<exists>k b. k \<in> pair_of ` set (df_today df a) \<and> final_baseline df a bd k = Some b \<and>
            mbm \<le> b \<and> s = spike_of df a k b)"
proof
  assume "s \<in> set (joined_rows df a bd mbm)"
  then obtain k where k: "k \<in> set (group_keys (df_today df a))"
    and ne: "final_baseline df a bd k \<noteq> None"
    and ge: "mbm \<le> the (final_baseline df a bd k)"
    and s: "s = spike_of df a k (the (final_baseline df a bd k))"
    unfolding joined_rows_eq by auto
  from ne obtain b where b: "final_baseline df a bd k = Some b" by auto
  from k have "k \<in> pair_of ` set (df_today df a)" by (simp add: set_group_keys)
  with b ge s show "\<exists>k b. k \<in> pair_of ` set (df_today df a) \<and>
      final_baseline df a bd k = Some b \<and> mbm \<le> b \<and> s = spike_of df a k b"
    by auto
next
  assume "\<exists>k b. k \<in> pair_of ` set (df_today df a) \<and>
      final_baseline df a bd k = Some b \<and> mbm \<le> b \<and> s = spike_of df a k b"
  then obtain k b where k: "k \<in> pair_of ` set (df_today df a)"
    and b: "final_baseline df a bd k = Some b" and ge: "mbm \<le> b"
    and s: "s = spike_of df a k b" by blast
  from k have "k \<in> set (group_keys (df_today df a))" by (simp add: set_group_keys)
  with b ge have "k \<in> set (filter (\<lambda>k. mbm \<le> the (final_baseline df a bd k))
         (filter (\<lambda>k. final_baseline df a bd k \<noteq> None) (group_keys (df_today df a))))"
    by simp
  then have "spike_of df a k (the (final_baseline df a bd k)) \<in> set (joined_rows df a bd mbm)"
    unfolding joined_rows_eq set_map by (rule imageI)
  with b s show "s \<in> set (joined_rows df a bd mbm)" by simp
qed


lemma map_of_merged_baseline:
  "map_of (merged_baseline df a bd) k =
     (if k \<in> pair_of ` set (df_today df a)
      then Some (sum_list (today_counts df a k), final_baseline df a bd k) else None)"
  by (simp add: merged_baseline_eq map_of_map_restrict restrict_map_def set_group_keys)

lemma window_counts_Nil_iff:
  "window_counts df a bd k = [] \<longleftrightarrow>
     \<not> (\<exists>r \<in> set df. pair_of r = k \<and> a - bd \<le> d_date r \<and> d_date r \<le> a - 1)"
  by (auto simp: window_counts_def filter_empty_conv)

lemma before_counts_Nil_iff:
  "before_counts df a k = [] \<longleftrightarrow> \<not> (\<exists>r \<in> set df. pair_of r = k \<and> d_date r < a)"
  by (auto simp: before_counts_def filter_empty_conv)

lemma before_Nil_window_Nil:
  "before_counts df a k = [] \<Longrightarrow> window_counts df a bd k = []"
  unfolding window_counts_Nil_iff before_counts_Nil_iff by auto

lemma final_baseline_eq:
  "final_baseline df a bd k =
     (if window_counts df a bd k \<noteq> [] then Some (mean (window_counts df a bd k))
      else if before_counts df a k \<noteq> [] then Some (mean (before_counts df a k))
      else None)"
  by (simp add: final_baseline_def primary_baseline_eq fallback_baseline_eq)

lemma detect_spikes_set:
  assumes "detect_spikes df a bd mbm mdr out"
  shows "set out = set (spike_candidates df a bd mbm mdr)"
proof (cases "df_today df a = []")
  case True
  then have "group_keys (df_today df a) = []" by (simp add: group_keys_def)
  then have "spike_candidates df a bd mbm mdr = []"
    by (simp add: spike_candidates_def joined_rows_eq filter_delta_def)
  with assms True show ?thesis by (simp add: detect_spikes_def)
next
  case False
  with assms have "mset out = mset (spike_candidates df a bd mbm mdr)"
    by (simp add: detect_spikes_def sort_values_desc_def)
  then show ?thesis by (rule mset_eq_setD)
qed

lemma in_detect_spikes:
  assumes "detect_spikes df a bd mbm mdr out"
  shows "s \<in> set out \<longleftrightarrow>
     s \<in> set (joined_rows df a bd mbm) \<and> fl_ge (fl_abs (delta_percent s)) (Fin (mdr * 100))"
  unfolding detect_spikes_set [OF assms] by (simp add: spike_candidates_def filter_delta_def)

lemma spike_of_fields [simp]:
  "country_code (spike_of df a k b) = fst k"
  "risk_type (spike_of df a k b) = snd k"
  "baseline (spike_of df a k b) = b"
  "today (spike_of df a k b) = sum_list (today_counts df a k)"
  "as_of (spike_of df a k b) = a"
  "delta_percent (spike_of df a k b) = delta_of (sum_list (today_counts df a k)) b"
  by (simp_all add: spike_of_def)

lemma detect_spikes_record:
  assumes "detect_spikes df a bd mbm mdr out" and "s \<in> set out"
  obtains k b where "k \<in> pair_of ` set (df_today df a)"
    and "final_baseline df a bd k = Some b" and "mbm \<le> b" and "s = spike_of df a k b"
  using assms in_detect_spikes [OF assms(1), of s] in_joined_rows [of s df a bd mbm] by blast

lemma mean_ge:
  assumes "xs \<noteq> []" and "\<forall>x \<in> set xs. c \<le> x"
  shows "of_int c \<le> mean xs"
proof -
  have "c * int (length xs) \<le> sum_list xs"
    using assms(2) by (induction xs) (auto simp: algebra_simps)
  then have "(of_int (c * int (length xs)) :: rat) \<le> of_int (sum_list xs)"
    by (simp only: of_int_le_iff)
  then have "(of_int c :: rat) * of_nat (length xs) \<le> of_int (sum_list xs)"
    by simp
  moreover have "(0::rat) < of_nat (length xs)" using assms(1) by simp
  ultimately show ?thesis
    unfolding mean_def by (simp add: pos_le_divide_eq)
qed

lemma counts_subset:
  "set (today_counts df a k) \<subseteq> d_count ` set df"
  "set (window_counts df a bd k) \<subseteq> d_count ` set df"
  "set (before_counts df a k) \<subseteq> d_count ` set df"
  by (auto simp: today_counts_def window_counts_def before_counts_def)

lemma final_baseline_ge:
  assumes "final_baseline df a bd k = Some b" and "\<forall>r \<in> set df. c \<le> d_count r"
  shows "of_int c \<le> b"
proof -
  have w: "\<forall>x \<in> set (window_counts df a bd k). c \<le> x"
    using counts_subset(2) [of df a bd k] assms(2) by auto
  have f: "\<forall>x \<in> set (before_counts df a k). c \<le> x"
    using counts_subset(3) [of df a k] assms(2) by auto
  from assms(1) show ?thesis
    unfolding final_baseline_eq
    using mean_ge [OF _ w] mean_ge [OF _ f] by (auto split: if_splits)
qed

lemma sorted_wrt_candidates:
  "sorted_wrt (\<lambda>x y. (country_code x, risk_type x) < (country_code y, risk_type y))
     (spike_candidates df a bd mbm mdr)"
proof -
  have "sorted_wrt (<) (group_keys (df_today df a))"
    using sorted_group_keys distinct_group_keys by (simp add: strict_sorted_iff)
  then have "sorted_wrt (<)
       (filter (\<lambda>k. mbm \<le> the (final_baseline df a bd k))
         (filter (\<lambda>k. final_baseline df a bd k \<noteq> None) (group_keys (df_today df a))))"
    by (intro sorted_wrt_filter)
  then have "sorted_wrt (\<lambda>x y. (country_code x, risk_type x) < (country_code y, risk_type y))
     (joined_rows df a bd mbm)"
    unfolding joined_rows_eq by (simp only: sorted_wrt_map spike_of_fields prod.collapse)
  then show ?thesis
    unfolding spike_candidates_def filter_delta_def by (rule sorted_wrt_filter)
qed

lemma fl_ge_rank:
  "a \<noteq> NaN \<Longrightarrow> b \<noteq> NaN \<Longrightarrow> fl_ge a b \<longleftrightarrow> fl_rank b \<le> fl_rank a"
  by (cases a; cases b) auto

lemma fl_rank_inj: "fl_rank a = fl_rank b \<longleftrightarrow> a = b"
  by (cases a; cases b) auto

lemma stable_descending_possible:
  assumes "\<forall>s \<in> set rows. delta_percent s \<noteq> NaN"
  shows "sort_values_desc rows (stable_descending rows)"
proof -
  let ?k = "\<lambda>s. fl_rank (delta_percent s)"
  have m: "mset (stable_descending rows) = mset rows"
    by (simp add: stable_descending_def)
  have "sorted (map ?k (sort_key ?k (rev rows)))" by (rule sorted_sort_key)
  then have "sorted_wrt (\<lambda>a b. ?k a \<le> ?k b) (sort_key ?k (rev rows))"
    by (simp add: sorted_map)
  then have s: "sorted_wrt (\<lambda>a b. ?k b \<le> ?k a) (stable_descending rows)"
    by (simp add: stable_descending_def sorted_wrt_rev)
  have "set (stable_descending rows) = set rows"
    using m by (rule mset_eq_setD)
  with assms have n: "\<forall>s \<in> set (stable_descending rows). delta_percent s \<noteq> NaN" by simp
  have "descending (stable_descending rows)"
    unfolding descending_def
    by (rule sorted_wrt_mono_rel [OF _ s]) (use n in \<open>simp add: fl_ge_rank\<close>)
  with m show ?thesis by (simp add: sort_values_desc_def)
qed

lemma sorted_wrt_ties:
  "sorted_wrt (\<lambda>a b. f a = f b \<longrightarrow> Q a b) zs \<longleftrightarrow>
     (\<forall>c. sorted_wrt Q (filter (\<lambda>y. f y = c) zs))"
  by (induction zs) auto

lemma stable_descending_filter:
  "filter (\<lambda>y. delta_percent y = c) (stable_descending rows) =
     filter (\<lambda>y. delta_percent y = c) rows"
proof -
  let ?k = "\<lambda>s. fl_rank (delta_percent s)"
  have e: "(\<lambda>y. delta_percent y = c) = (\<lambda>y. ?k y = fl_rank c)"
    by (simp add: fl_rank_inj)
  show ?thesis
    unfolding e stable_descending_def
    by (simp only: rev_filter [symmetric] sort_key_stable rev_rev_ident)
qed

lemma stable_descending_tie_order:
  assumes "sorted_wrt (\<lambda>x y. (country_code x, risk_type x) < (country_code y, risk_type y)) rows"
  shows "tie_order (stable_descending rows)"
proof -
  have le: "sorted_wrt (\<lambda>x y. (country_code x, risk_type x) \<le> (country_code y, risk_type y)) rows"
    by (rule sorted_wrt_mono_rel [OF _ assms]) (rule less_imp_le)
  show ?thesis
    unfolding tie_order_def sorted_wrt_ties stable_descending_filter
    using le by (simp add: sorted_wrt_filter)
qed

lemma detect_spikes_stable:
  "detect_spikes df a bd mbm mdr (stable_descending (spike_candidates df a bd mbm mdr)) \<and>
   tie_order (stable_descending (spike_candidates df a bd mbm mdr))"
proof -
  have n: "\<forall>s \<in> set (spike_candidates df a bd mbm mdr). delta_percent s \<noteq> NaN"
    by (auto simp: spike_candidates_def filter_delta_def)
  have e: "spike_candidates df a bd mbm mdr = []" if "df_today df a = []"
    using that by (simp add: spike_candidates_def joined_rows_eq filter_delta_def group_keys_def)
  have "detect_spikes df a bd mbm mdr (stable_descending (spike_candidates df a bd mbm mdr))"
    using stable_descending_possible [OF n] e
    by (auto simp: detect_spikes_def stable_descending_def)
  moreover have "tie_order (stable_descending (spike_candidates df a bd mbm mdr))"
    by (rule stable_descending_tie_order [OF sorted_wrt_candidates])
  ultimately show ?thesis ..
qed


section \<open>The claims about the detector\<close>





text \<open>
  C2 (as stated, refuted). The claim has every record tagged with the source of its baseline.
  The returned frame has the columns \<^verbatim>\<open>as_of\<close>, \<^verbatim>\<open>country_code\<close>, \<^verbatim>\<open>risk_type\<close>,
  \<^verbatim>\<open>today\<close>, \<^verbatim>\<open>baseline\<close> and \<^verbatim>\<open>delta_percent\<close> and no other: a table whose pair is
  served by the primary window and a table whose pair is served by the fallback return the
  very same record, so nothing in the record tells the two sources apart.
\<close>

theorem baseline_source_counterexample:
  "detect_spikes ex_primary 10 7 1 1 [spike_row ''A'' ''OTHER'' 3 1 (Fin 200)] \<and>
   detect_spikes ex_fallback 10 7 1 1 [spike_row ''A'' ''OTHER'' 3 1 (Fin 200)] \<and>
   primary_baseline ex_primary 10 7 (''A'', ''OTHER'') = Some 1 \<and>
   primary_baseline ex_fallback 10 7 (''A'', ''OTHER'') = None \<and>
   fallback_baseline ex_fallback 10 (''A'', ''OTHER'') = Some 1"
  by code_simp

text \<open>
  C2 (amended). For every pair with rows on the target date, the left join gives the pair its
  primary baseline, and the final baseline is the primary one where it exists and the
  fallback one otherwise. The primary baseline exists exactly when the pair has a row in
  \<open>[as_of - baseline_days, as_of - 1]\<close>; so the baseline comes from the fallback computation
  exactly when the pair has no row in that window but a row dated before \<open>as_of\<close>. The
  record carries no tag of the source.
\<close>

theorem fallback_iff_no_window_rows:
  assumes "k \<in> pair_of ` set (df_today df a)"
  shows
    "map_of (merged_primary df a bd) k =
       Some (sum_list (today_counts df a k), primary_baseline df a bd k) \<and>
     map_of (merged_baseline df a bd) k =
       Some (sum_list (today_counts df a k),
             case primary_baseline df a bd k of
               None \<Rightarrow> fallback_baseline df a k
             | Some x \<Rightarrow> Some x) \<and>
     (primary_baseline df a bd k \<noteq> None \<longleftrightarrow>
        (\<exists>r \<in> set df. pair_of r = k \<and> a - bd \<le> d_date r \<and> d_date r \<le> a - 1)) \<and>
     (primary_baseline df a bd k = None \<and> fallback_baseline df a k \<noteq> None \<longleftrightarrow>
        \<not> (\<exists>r \<in> set df. pair_of r = k \<and> a - bd \<le> d_date r \<and> d_date r \<le> a - 1) \<and>
        (\<exists>r \<in> set df. pair_of r = k \<and> d_date r < a))"
proof (intro conjI)
  show "map_of (merged_primary df a bd) k =
       Some (sum_list (today_counts df a k), primary_baseline df a bd k)"
    using assms
    by (simp add: merged_primary_eq map_of_map_restrict restrict_map_def set_group_keys)
  show "map_of (merged_baseline df a bd) k =
       Some (sum_list (today_counts df a k),
             case primary_baseline df a bd k of
               None \<Rightarrow> fallback_baseline df a k
             | Some x \<Rightarrow> Some x)"
    using assms by (simp add: map_of_merged_baseline final_baseline_def)
  show "primary_baseline df a bd k \<noteq> None \<longleftrightarrow>
        (\<exists>r \<in> set df. pair_of r = k \<and> a - bd \<le> d_date r \<and> d_date r \<le> a - 1)"
    by (auto simp: primary_baseline_eq window_counts_Nil_iff)
  show "primary_baseline df a bd k = None \<and> fallback_baseline df a k \<noteq> None \<longleftrightarrow>
        \<not> (\<exists>r \<in> set df. pair_of r = k \<and> a - bd \<le> d_date r \<and> d_date r \<le> a - 1) \<and>
        (\<exists>r \<in> set df. pair_of r = k \<and> d_date r < a)"
    by (auto simp: primary_baseline_eq fallback_baseline_eq window_counts_Nil_iff
        before_counts_Nil_iff)
qed


theorem fallback_iff_no_window_rows_witness:
  "primary_baseline ex_fallback 10 7 (''A'', ''OTHER'') = None \<and>
   fallback_baseline ex_fallback 10 (''A'', ''OTHER'') = Some 1 \<and>
   map_of (merged_primary ex_fallback 10 7) (''A'', ''OTHER'') = Some (3, None) \<and>
   map_of (merged_baseline ex_fallback 10 7) (''A'', ''OTHER'') = Some (3, Some 1)"
proof -
  have k: "(''A'', ''OTHER'') \<in> pair_of ` set (df_today ex_fallback 10)"
    by code_simp
  have p: "primary_baseline ex_fallback 10 7 (''A'', ''OTHER'') = None"
    by code_simp
  have f: "fallback_baseline ex_fallback 10 (''A'', ''OTHER'') = Some 1"
    by code_simp
  have t: "sum_list (today_counts ex_fallback 10 (''A'', ''OTHER'')) = 3"
    by code_simp
  from fallback_iff_no_window_rows [OF k, of 7] p f t show ?thesis by simp
qed

text \<open>
  C5. For a pair with rows dated \<open>as_of\<close>: if it has rows in the window
  \<open>[as_of - baseline_days, as_of - 1]\<close>, its baseline in the joined table is the mean of its
  counts over those rows; if it has none there but rows before \<open>as_of\<close>, its baseline is the
  mean of its counts over all rows before \<open>as_of\<close>; if it has no row before \<open>as_of\<close>, its
  baseline stays missing and no returned record is about the pair. The baseline of a returned
  record is the one so determined.
\<close>

theorem baseline_primary_fallback_dropped:
  assumes "k \<in> pair_of ` set (df_today df a)"
  shows
    "(window_counts df a bd k \<noteq> [] \<longrightarrow>
        map_of (merged_baseline df a bd) k =
          Some (sum_list (today_counts df a k), Some (mean (window_counts df a bd k)))) \<and>
     (window_counts df a bd k = [] \<and> before_counts df a k \<noteq> [] \<longrightarrow>
        map_of (merged_baseline df a bd) k =
          Some (sum_list (today_counts df a k), Some (mean (before_counts df a k)))) \<and>
     (before_counts df a k = [] \<longrightarrow>
        map_of (merged_baseline df a bd) k = Some (sum_list (today_counts df a k), None) \<and>
        (\<forall>out s. detect_spikes df a bd mbm mdr out \<and> s \<in> set out
            \<longrightarrow> (country_code s, risk_type s) \<noteq> k)) \<and>
     (\<forall>out s. detect_spikes df a bd mbm mdr out \<and> s \<in> set out \<and>
          (country_code s, risk_type s) = k
            \<longrightarrow> baseline s =
                (if window_counts df a bd k \<noteq> [] then mean (window_counts df a bd k)
                 else mean (before_counts df a k)))"
proof (intro conjI impI allI)
  assume "window_counts df a bd k \<noteq> []"
  then show "map_of (merged_baseline df a bd) k =
          Some (sum_list (today_counts df a k), Some (mean (window_counts df a bd k)))"
    using assms by (simp add: map_of_merged_baseline final_baseline_eq)
next
  assume "window_counts df a bd k = [] \<and> before_counts df a k \<noteq> []"
  then show "map_of (merged_baseline df a bd) k =
          Some (sum_list (today_counts df a k), Some (mean (before_counts df a k)))"
    using assms by (simp add: map_of_merged_baseline final_baseline_eq)
next
  assume "before_counts df a k = []"
  then show "map_of (merged_baseline df a bd) k = Some (sum_list (today_counts df a k), None)"
    using assms before_Nil_window_Nil [of df a k bd]
    by (simp add: map_of_merged_baseline final_baseline_eq)
next
  fix out s
  assume b: "before_counts df a k = []"
    and "detect_spikes df a bd mbm mdr out \<and> s \<in> set out"
  then have d: "detect_spikes df a bd mbm mdr out" and s: "s \<in> set out" by auto
  from d s obtain k' b' where fb: "final_baseline df a bd k' = Some b'"
    and s': "s = spike_of df a k' b'" by (rule detect_spikes_record)
  show "(country_code s, risk_type s) \<noteq> k"
  proof
    assume "(country_code s, risk_type s) = k"
    with s' have "k' = k" by simp
    with fb b before_Nil_window_Nil [OF b, of bd] show False
      by (simp add: final_baseline_eq)
  qed
next
  fix out s
  assume "detect_spikes df a bd mbm mdr out \<and> s \<in> set out \<and> (country_code s, risk_type s) = k"
  then have d: "detect_spikes df a bd mbm mdr out" and s: "s \<in> set out"
    and k: "(country_code s, risk_type s) = k" by auto
  from d s obtain k' b' where fb: "final_baseline df a bd k' = Some b'"
    and s': "s = spike_of df a k' b'" by (rule detect_spikes_record)
  from k s' have kk: "k' = k" by simp
  from fb show "baseline s =
                (if window_counts df a bd k \<noteq> [] then mean (window_counts df a bd k)
                 else mean (before_counts df a k))"
    unfolding kk s' by (auto simp: final_baseline_eq split: if_splits)
qed


theorem baseline_primary_fallback_dropped_witness:
  "window_counts ex_mixed 10 7 (''US'', ''MILITARY'') = [4, 6] \<and>
   map_of (merged_baseline ex_mixed 10 7) (''US'', ''MILITARY'') = Some (9, Some 5) \<and>
   window_counts ex_mixed 10 7 (''JP'', ''OTHER'') = [] \<and>
   before_counts ex_mixed 10 (''JP'', ''OTHER'') = [1] \<and>
   map_of (merged_baseline ex_mixed 10 7) (''JP'', ''OTHER'') = Some (3, Some 1) \<and>
   before_counts ex_mixed 10 (''FR'', ''OTHER'') = [] \<and>
   map_of (merged_baseline ex_mixed 10 7) (''FR'', ''OTHER'') = Some (5, None)"
proof -
  have k1: "(''US'', ''MILITARY'') \<in> pair_of ` set (df_today ex_mixed 10)" by code_simp
  have k2: "(''JP'', ''OTHER'') \<in> pair_of ` set (df_today ex_mixed 10)" by code_simp
  have k3: "(''FR'', ''OTHER'') \<in> pair_of ` set (df_today ex_mixed 10)" by code_simp
  have w1: "window_counts ex_mixed 10 7 (''US'', ''MILITARY'') = [4, 6]" by code_simp
  have w2: "window_counts ex_mixed 10 7 (''JP'', ''OTHER'') = []" by code_simp
  have b2: "before_counts ex_mixed 10 (''JP'', ''OTHER'') = [1]" by code_simp
  have b3: "before_counts ex_mixed 10 (''FR'', ''OTHER'') = []" by code_simp
  have t1: "sum_list (today_counts ex_mixed 10 (''US'', ''MILITARY'')) = 9" by code_simp
  have t2: "sum_list (today_counts ex_mixed 10 (''JP'', ''OTHER'')) = 3" by code_simp
  have t3: "sum_list (today_counts ex_mixed 10 (''FR'', ''OTHER'')) = 5" by code_simp
  have m1: "mean [4, 6] = 5" and m2: "mean [1] = 1" by (simp_all add: mean_def)
  have 1: "map_of (merged_baseline ex_mixed 10 7) (''US'', ''MILITARY'') = Some (9, Some 5)"
    using baseline_primary_fallback_dropped [OF k1, of 7 1 1] w1 t1 m1 by simp
  have 2: "map_of (merged_baseline ex_mixed 10 7) (''JP'', ''OTHER'') = Some (3, Some 1)"
    using baseline_primary_fallback_dropped [OF k2, of 7 1 1] w2 b2 t2 m2 by simp
  have 3: "map_of (merged_baseline ex_mixed 10 7) (''FR'', ''OTHER'') = Some (5, None)"
    using baseline_primary_fallback_dropped [OF k3, of 7 1 1] b3 t3 by simp
  from 1 2 3 w1 w2 b2 b3 show ?thesis by simp
qed

text \<open>
  C6. A row of the joined table (after the minimum-baseline filter) is returned if and only
  if the absolute value of its \<^verbatim>\<open>delta_percent\<close> is at least \<open>min_delta_rel * 100\<close>. With
  \<open>min_delta_rel = 1\<close> a row whose \<^verbatim>\<open>delta_percent\<close> is 80 is dropped and a row whose
  \<^verbatim>\<open>delta_percent\<close> is -150 is kept.
\<close>

theorem delta_threshold_filter:
  "(s \<in> set (filter_delta mdr rows) \<longleftrightarrow>
      s \<in> set rows \<and> fl_ge (fl_abs (delta_percent s)) (Fin (mdr * 100))) \<and>
   (\<forall>out. detect_spikes df a bd mbm mdr out \<longrightarrow>
      (s \<in> set out \<longleftrightarrow>
         s \<in> set (joined_rows df a bd mbm) \<and>
         fl_ge (fl_abs (delta_percent s)) (Fin (mdr * 100)))) \<and>
   (\<forall>x. delta_percent s = Fin x \<longrightarrow>
      (fl_ge (fl_abs (delta_percent s)) (Fin (mdr * 100)) \<longleftrightarrow> mdr * 100 \<le> \<bar>x\<bar>)) \<and>
   (delta_percent s = Fin 80 \<longrightarrow> s \<notin> set (filter_delta 1 rows)) \<and>
   (delta_percent s = Fin (- 150) \<and> s \<in> set rows \<longrightarrow> s \<in> set (filter_delta 1 rows))"
  using in_detect_spikes [of df a bd mbm mdr _ s]
  by (auto simp: filter_delta_def)


theorem delta_threshold_filter_witness:
  "detect_spikes ex_mixed 10 7 1 1 [spike_row ''JP'' ''OTHER'' 3 1 (Fin 200)] \<and>
   spike_row ''US'' ''MILITARY'' 9 5 (Fin 80) \<in> set (joined_rows ex_mixed 10 7 1) \<and>
   spike_row ''US'' ''MILITARY'' 9 5 (Fin 80) \<notin> set (filter_delta 1 (joined_rows ex_mixed 10 7 1)) \<and>
   spike_row ''X'' ''OTHER'' 1 2 (Fin (- 150))
     \<in> set (filter_delta 1 [spike_row ''X'' ''OTHER'' 1 2 (Fin (- 150))])"
proof -
  have d: "detect_spikes ex_mixed 10 7 1 1 [spike_row ''JP'' ''OTHER'' 3 1 (Fin 200)]" by code_simp
  have j: "spike_row ''US'' ''MILITARY'' 9 5 (Fin 80) \<in> set (joined_rows ex_mixed 10 7 1)" by code_simp
  have e: "delta_percent (spike_row ''US'' ''MILITARY'' 9 5 (Fin 80)) = Fin 80" by (simp add: spike_row_def)
  have n: "delta_percent (spike_row ''X'' ''OTHER'' 1 2 (Fin (- 150))) = Fin (- 150)"
    by (simp add: spike_row_def)
  have 1: "spike_row ''US'' ''MILITARY'' 9 5 (Fin 80) \<notin> set (filter_delta 1 (joined_rows ex_mixed 10 7 1))"
    using delta_threshold_filter [of "spike_row ''US'' ''MILITARY'' 9 5 (Fin 80)" 1 "joined_rows ex_mixed 10 7 1"] e by blast
  have 2: "spike_row ''X'' ''OTHER'' 1 2 (Fin (- 150))
     \<in> set (filter_delta 1 [spike_row ''X'' ''OTHER'' 1 2 (Fin (- 150))])"
    using delta_threshold_filter [of "spike_row ''X'' ''OTHER'' 1 2 (Fin (- 150))" 1
        "[spike_row ''X'' ''OTHER'' 1 2 (Fin (- 150))]"] n by simp
  from d j 1 2 show ?thesis by simp
qed





section \<open>Properties of the extraction\<close>

lemma in_set_map_filter:
  "y \<in> set (List.map_filter f xs) \<longleftrightarrow> (\<exists>x \<in> set xs. f x = Some y)"
  by (induction xs) (auto split: option.splits)

lemma extract_event_Some:
  assumes "extract_event strptime G node = Some e"
  shows "e_countries e \<noteq> [] \<and> distinct (e_countries e)"
  using assms
  by (auto simp: extract_event_def Let_def neighbor_countries_def
      split: if_splits option.splits)

lemma valid_events_countries:
  assumes "e \<in> set (valid_events strptime G)"
  shows "e_countries e \<noteq> []" and "distinct (e_countries e)"
proof -
  from assms obtain node where "extract_event strptime G node = Some e"
    by (auto simp: valid_events_def in_set_map_filter)
  from extract_event_Some [OF this]
  show "e_countries e \<noteq> []" and "distinct (e_countries e)" by simp_all
qed

lemma extracted_rows_pairs:
  "extracted_rows strptime G = map row_of_pair (event_country_pairs strptime G)"
  by (simp add: extracted_rows_def event_country_pairs_def event_rows_def [abs_def]
      row_of_pair_def map_concat comp_def)



lemma length_filter_sum:
  "length (filter P xs) = (\<Sum>k \<in> set xs. if P k then length (filter (\<lambda>r. r = k) xs) else 0)"
proof -
  have "length (filter P xs) = sum_list (map (\<lambda>x. if P x then 1 else 0) xs)"
    by (induction xs) auto
  also have "\<dots> = (\<Sum>k \<in> set xs. count_list xs k * (if P k then 1 else 0))"
    by (rule sum_list_map_eq_sum_count)
  also have "\<dots> = (\<Sum>k \<in> set xs. if P k then length (filter (\<lambda>r. r = k) xs) else 0)"
  proof (rule sum.cong [OF refl])
    fix k
    have "filter ((=) k) xs = filter (\<lambda>r. r = k) xs"
      by (rule filter_cong) auto
    then show "count_list xs k * (if P k then 1 else 0) =
          (if P k then length (filter (\<lambda>r. r = k) xs) else 0)"
      by (simp add: count_list_eq_length_filter)
  qed
  finally show ?thesis .
qed

lemma sum_group_sizes:
  "sum_list (map (\<lambda>k. length (filter (\<lambda>r. r = k) rows)) (filter P (sort (remdups rows)))) =
     length (filter P rows)"
proof -
  have d: "distinct (filter P (sort (remdups rows)))" by simp
  have s: "set (filter P (sort (remdups rows))) = {k \<in> set rows. P k}" by auto
  have "sum_list (map (\<lambda>k. length (filter (\<lambda>r. r = k) rows)) (filter P (sort (remdups rows)))) =
        (\<Sum>k \<in> {k \<in> set rows. P k}. length (filter (\<lambda>r. r = k) rows))"
    unfolding sum_list_distinct_conv_sum_set [OF d] s ..
  also have "\<dots> = (\<Sum>k \<in> set rows. if P k then length (filter (\<lambda>r. r = k) rows) else 0)"
    by (simp add: sum.inter_filter)
  also have "\<dots> = length (filter P rows)"
    by (rule length_filter_sum [symmetric])
  finally show ?thesis .
qed

lemma sum_list_int:
  "sum_list (map (\<lambda>k. int (f k)) ks) = int (sum_list (map f ks))"
  by (induction ks) auto

lemma groupby_size_date:
  "filter (\<lambda>r. d_date r = d) (groupby_size rows) =
     map (\<lambda>k. \<lparr>d_date = fst k, d_country_code = fst (snd k), d_risk_type = snd (snd k),
                d_count = int (length (filter (\<lambda>r. r = k) rows))\<rparr>)
       (filter (\<lambda>k. fst k = d) (sort (remdups rows)))"
  by (simp add: groupby_size_def filter_map comp_def)

lemma groupby_size_sum:
  "sum_list (map d_count (filter (\<lambda>r. d_date r = d) (groupby_size rows))) =
     int (length (filter (\<lambda>k. fst k = d) rows))"
proof -
  have "sum_list (map d_count (filter (\<lambda>r. d_date r = d) (groupby_size rows))) =
        sum_list (map (\<lambda>k. int (length (filter (\<lambda>r. r = k) rows)))
          (filter (\<lambda>k. fst k = d) (sort (remdups rows))))"
    unfolding groupby_size_date by (simp add: comp_def)
  also have "\<dots> = int (sum_list (map (\<lambda>k. length (filter (\<lambda>r. r = k) rows))
          (filter (\<lambda>k. fst k = d) (sort (remdups rows)))))"
    by (rule sum_list_int)
  also have "\<dots> = int (length (filter (\<lambda>k. fst k = d) rows))"
    by (simp only: sum_group_sizes)
  finally show ?thesis .
qed

lemma groupby_size_count:
  assumes "r \<in> set (groupby_size rows)"
  shows "d_count r =
           int (length (filter (\<lambda>x. x = (d_date r, d_country_code r, d_risk_type r)) rows)) \<and>
         (d_date r, d_country_code r, d_risk_type r) \<in> set rows"
  using assms by (auto simp: groupby_size_def)

lemma groupby_size_positive:
  assumes "r \<in> set (groupby_size rows)"
  shows "1 \<le> d_count r"
proof -
  from groupby_size_count [OF assms]
  have c: "d_count r =
      int (length (filter (\<lambda>x. x = (d_date r, d_country_code r, d_risk_type r)) rows))"
    and m: "(d_date r, d_country_code r, d_risk_type r) \<in> set rows" by auto
  from m have "filter (\<lambda>x. x = (d_date r, d_country_code r, d_risk_type r)) rows \<noteq> []"
    by (simp add: filter_empty_conv)
  then have "0 < length (filter (\<lambda>x. x = (d_date r, d_country_code r, d_risk_type r)) rows)"
    by simp
  with c show ?thesis by linarith
qed



section \<open>The claims about the extraction\<close>



text \<open>
  C9. For the table returned by \<^verbatim>\<open>graphml_to_daily_counts\<close> and every date \<open>d\<close>, the counts
  of the rows dated \<open>d\<close> add up to the number of (event, country) pairs of the valid events
  dated \<open>d\<close>; the count of a row is the number of such pairs with the row's date, country and
  risk category. A valid event has distinct countries and contributes one row per country,
  each with the event's date and its one risk category.
\<close>

theorem daily_counts_sum_per_date:
  assumes "graphml_to_daily_counts strptime G = Inr df"
  shows
    "sum_list (map d_count (filter (\<lambda>r. d_date r = d) df)) =
       int (length (filter (\<lambda>p. e_date (fst p) = d) (event_country_pairs strptime G))) \<and>
     (\<forall>r \<in> set df.
        d_count r =
          int (length (filter (\<lambda>p. e_date (fst p) = d_date r \<and> snd p = d_country_code r \<and>
                                   e_risk_type (fst p) = d_risk_type r)
                         (event_country_pairs strptime G)))) \<and>
     (\<forall>e \<in> set (valid_events strptime G).
        distinct (e_countries e) \<and>
        length (event_rows e) = card (set (e_countries e)) \<and>
        (\<forall>row \<in> set (event_rows e). fst row = e_date e \<and> snd (snd row) = e_risk_type e) \<and>
        fst ` snd ` set (event_rows e) = set (e_countries e))"
proof -
  from assms have df: "df = groupby_size (extracted_rows strptime G)"
    by (auto simp: graphml_to_daily_counts_def Let_def split: if_splits)
  have 1: "sum_list (map d_count (filter (\<lambda>r. d_date r = d) df)) =
       int (length (filter (\<lambda>p. e_date (fst p) = d) (event_country_pairs strptime G)))"
    unfolding df groupby_size_sum
    by (simp add: extracted_rows_pairs filter_map comp_def row_of_pair_def)
  have 2: "d_count r =
          int (length (filter (\<lambda>p. e_date (fst p) = d_date r \<and> snd p = d_country_code r \<and>
                                   e_risk_type (fst p) = d_risk_type r)
                         (event_country_pairs strptime G)))" if "r \<in> set df" for r
  proof -
    from that have "d_count r =
        int (length (filter (\<lambda>x. x = (d_date r, d_country_code r, d_risk_type r))
          (extracted_rows strptime G)))"
      unfolding df by (simp add: groupby_size_count)
    then show ?thesis
      by (simp add: extracted_rows_pairs filter_map comp_def row_of_pair_def)
  qed
  have 3: "distinct (e_countries e) \<and>
        length (event_rows e) = card (set (e_countries e)) \<and>
        (\<forall>row \<in> set (event_rows e). fst row = e_date e \<and> snd (snd row) = e_risk_type e) \<and>
        fst ` snd ` set (event_rows e) = set (e_countries e)"
    if e: "e \<in> set (valid_events strptime G)" for e
  proof -
    have a: "distinct (e_countries e)" by (rule valid_events_countries(2) [OF e])
    then have b: "length (event_rows e) = card (set (e_countries e))"
      by (simp add: event_rows_def distinct_card)
    have c: "\<forall>row \<in> set (event_rows e). fst row = e_date e \<and> snd (snd row) = e_risk_type e"
      by (auto simp: event_rows_def)
    have d: "fst ` snd ` set (event_rows e) = set (e_countries e)"
      by (force simp: event_rows_def image_iff)
    from a b c d show ?thesis by blast
  qed
  from 1 2 3 show ?thesis by blast
qed

theorem daily_counts_sum_per_date_witness:
  "graphml_to_daily_counts ex_strptime ex_graph = Inr ex_daily \<and>
   length (filter (\<lambda>p. e_date (fst p) = 20251124) (event_country_pairs ex_strptime ex_graph)) = 3 \<and>
   sum_list (map d_count (filter (\<lambda>r. d_date r = 20251124) ex_daily)) = 3"
proof -
  have g: "graphml_to_daily_counts ex_strptime ex_graph = Inr ex_daily" by code_simp
  have n: "length (filter (\<lambda>p. e_date (fst p) = 20251124)
      (event_country_pairs ex_strptime ex_graph)) = 3" by code_simp
  from daily_counts_sum_per_date [OF g, of 20251124] g n show ?thesis by simp
qed

text \<open>
  C10. Every row of the table returned by \<^verbatim>\<open>graphml_to_daily_counts\<close> has a count of at
  least 1. When \<^verbatim>\<open>detect_spikes\<close> works on such a table, every defined baseline is at
  least 1, and the minimum-baseline filter with the default \<open>min_baseline_mean = 1\<close> removes
  no pair that has a baseline.
\<close>

theorem counts_at_least_one:
  assumes "graphml_to_daily_counts strptime G = Inr df"
  shows "(\<forall>r \<in> set df. 1 \<le> d_count r) \<and>
         (\<forall>k b. final_baseline df a bd k = Some b \<longrightarrow> 1 \<le> b) \<and>
         (\<forall>k t b. (k, t, b) \<in> set (dropna (merged_baseline df a bd)) \<longrightarrow> 1 \<le> b) \<and>
         filter_baseline 1 (dropna (merged_baseline df a bd)) = dropna (merged_baseline df a bd)"
proof -
  from assms have df: "df = groupby_size (extracted_rows strptime G)"
    by (auto simp: graphml_to_daily_counts_def Let_def split: if_splits)
  have 1: "\<forall>r \<in> set df. 1 \<le> d_count r"
    unfolding df by (auto intro: groupby_size_positive)
  have 2: "1 \<le> b" if "final_baseline df a bd k = Some b" for k b
    using final_baseline_ge [OF that 1] by simp
  have 3: "1 \<le> b" if "(k, t, b) \<in> set (dropna (merged_baseline df a bd))" for k t b
  proof -
    from that have "final_baseline df a bd k = Some b"
      by (auto simp: merged_baseline_eq dropna_eq)
    then show ?thesis by (rule 2)
  qed
  have 4: "filter_baseline 1 (dropna (merged_baseline df a bd)) = dropna (merged_baseline df a bd)"
    unfolding filter_baseline_def using 3 by (intro filter_True) auto
  from 1 2 3 4 show ?thesis by blast
qed

theorem counts_at_least_one_witness:
  "graphml_to_daily_counts ex_strptime ex_graph = Inr ex_daily \<and>
   dropna (merged_baseline ex_daily 20251124 7) = [((''US'', ''MILITARY''), 1, 1)] \<and>
   filter_baseline 1 (dropna (merged_baseline ex_daily 20251124 7)) =
     [((''US'', ''MILITARY''), 1, 1)]"
proof -
  have g: "graphml_to_daily_counts ex_strptime ex_graph = Inr ex_daily" by code_simp
  have d: "dropna (merged_baseline ex_daily 20251124 7) = [((''US'', ''MILITARY''), 1, 1)]"
    by code_simp
  from counts_at_least_one [OF g, of 20251124 7] g d show ?thesis by simp
qed

end
